theory Spec2Isabelle
  imports Main
begin

section \<open>Python objects used by send_self.py\<close>

text \<open>
  The module wraps Python generator objects. Objects with identity (generators, wrapper
  instances, weak reference objects) live in an explicit store and are named by their
  object id. Exceptions are values: every operation returns \<open>exc + 'a\<close> together with
  the store it leaves behind.
\<close>

type_synonym gen_id = nat
type_synonym handle_id = nat
type_synonym callback = string

datatype exc =
    StopIteration
  | GeneratorExit
  | TypeError string
  | ValueError string
  | AttributeError string
  | RuntimeError string
  | ReferenceError string

datatype weakref = WeakRef gen_id

datatype pyval = PNone | PInt int | PStr string | PHandle handle_id

subsection \<open>Generator bodies\<close>

text \<open>
  A suspended generator frame is a continuation: given what is delivered at the current
  \<open>yield\<close> (a value by \<open>send\<close>, an exception by \<open>throw\<close>), the body runs up to its next
  \<open>yield\<close>, returns, or lets an exception escape. Bodies may run forever in the sense
  of never running out of \<open>yield\<close>s, hence the codatatype. A step depends on what is
  delivered only; what a body does to other objects while it runs is not part of it.
\<close>

datatype resume_input = Send pyval | Throw exc

datatype 'k outcome = Yielded pyval 'k | Returned | Raised exc

codatatype cont = Cont (resume: "resume_input \<Rightarrow> cont outcome")

datatype gstate = GCreated cont | GSuspended cont | GRunning | GFinished

subsection \<open>The wrapper classes\<close>

text \<open>
  \<open>WeakGeneratorWrapper.__init__\<close> stores \<open>weakref.ref(generator)\<close> in \<open>weak_generator\<close>;
  \<open>StrongGeneratorWrapper.__init__\<close> stores the generator itself in \<open>generator\<close>
  (which is whatever the caller passed, possibly Python's \<open>None\<close>). Both pass the
  remaining positional arguments on to \<open>GeneratorWrapperBase.__init__\<close>, which stores
  \<open>catch_stopiteration\<close> and \<open>debug\<close> and prints when \<open>debug\<close> is set. No method
  assigns to these attributes afterwards. \<open>__del__\<close> only prints and is left out.
\<close>

datatype handle =
    WeakGeneratorWrapper (weak_generator: weakref) (catch_stopiteration: bool) (debug: bool)
  | StrongGeneratorWrapper (strong_generator: "gen_id option") (catch_stopiteration: bool) (debug: bool)

datatype event =
    PrintNew handle_id
  | PrintSend "gen_id option" pyval
  | PrintThrow "gen_id option" exc

text \<open>
  \<open>wrefs\<close> lists the live weak reference objects created with a callback slot
  (object id, referent, callback); \<open>fired\<close> records the callbacks the runtime has
  invoked; \<open>stdout\<close> records what \<open>print\<close> wrote.
\<close>

record heap =
  gens :: "gen_id \<rightharpoonup> gstate"
  handles :: "handle_id \<rightharpoonup> handle"
  wrefs :: "(nat \<times> gen_id \<times> callback option) list"
  next_id :: nat
  fired :: "callback list"
  stdout :: "event list"

definition empty_heap :: heap where
  "empty_heap = \<lparr>gens = Map.empty, handles = Map.empty, wrefs = [], next_id = 0,
                 fired = [], stdout = []\<rparr>"

section \<open>The generator protocol of the Python runtime\<close>

definition set_gen :: "gen_id \<Rightarrow> gstate \<Rightarrow> heap \<Rightarrow> heap" where
  "set_gen g st h = h\<lparr>gens := (gens h)(g \<mapsto> st)\<rparr>"

text \<open>Running the frame of generator \<open>g\<close> from continuation \<open>k\<close> until it gives up control.\<close>

definition run_frame :: "gen_id \<Rightarrow> cont \<Rightarrow> resume_input \<Rightarrow> heap \<Rightarrow> (exc + pyval) \<times> heap" where
  "run_frame g k i h =
     (case resume k i of
        Yielded y k' \<Rightarrow> (Inr y, set_gen g (GSuspended k') h)
      | Returned \<Rightarrow> (Inl StopIteration, set_gen g GFinished h)
      | Raised e \<Rightarrow> (Inl e, set_gen g GFinished h))"

text \<open>
  \<open>generator.send(value)\<close>. A strong reference always names an allocated object, so
  the first branch cannot be reached from Python; it is there to keep the function total.
\<close>

definition gen_send :: "gen_id \<Rightarrow> pyval \<Rightarrow> heap \<Rightarrow> (exc + pyval) \<times> heap" where
  "gen_send g v h =
     (case gens h g of
        None \<Rightarrow> (Inl (ReferenceError ''no such object''), h)
      | Some (GCreated k) \<Rightarrow>
          (if v \<noteq> PNone
           then (Inl (TypeError ''can't send non-None value to a just-started generator''), h)
           else run_frame g k (Send PNone) h)
      | Some (GSuspended k) \<Rightarrow> run_frame g k (Send v) h
      | Some GRunning \<Rightarrow> (Inl (ValueError ''generator already executing''), h)
      | Some GFinished \<Rightarrow> (Inl StopIteration, h))"

text \<open>\<open>next(generator)\<close> is \<open>generator.send(None)\<close>.\<close>

definition gen_next :: "gen_id \<Rightarrow> heap \<Rightarrow> (exc + pyval) \<times> heap" where
  "gen_next g h = gen_send g PNone h"

text \<open>\<open>generator.throw(exc)\<close>.\<close>

definition gen_throw :: "gen_id \<Rightarrow> exc \<Rightarrow> heap \<Rightarrow> (exc + pyval) \<times> heap" where
  "gen_throw g e h =
     (case gens h g of
        None \<Rightarrow> (Inl (ReferenceError ''no such object''), h)
      | Some (GCreated k) \<Rightarrow> (Inl e, set_gen g GFinished h)
      | Some (GSuspended k) \<Rightarrow> run_frame g k (Throw e) h
      | Some GRunning \<Rightarrow> (Inl (ValueError ''generator already executing''), h)
      | Some GFinished \<Rightarrow> (Inl e, h))"

text \<open>\<open>generator.close()\<close>.\<close>

definition gen_close :: "gen_id \<Rightarrow> heap \<Rightarrow> (exc + pyval) \<times> heap" where
  "gen_close g h =
     (case gens h g of
        None \<Rightarrow> (Inl (ReferenceError ''no such object''), h)
      | Some (GCreated k) \<Rightarrow> (Inr PNone, set_gen g GFinished h)
      | Some (GSuspended k) \<Rightarrow>
          (case resume k (Throw GeneratorExit) of
             Yielded y k' \<Rightarrow>
               (Inl (RuntimeError ''generator ignored GeneratorExit''), set_gen g (GSuspended k') h)
           | Returned \<Rightarrow> (Inr PNone, set_gen g GFinished h)
           | Raised e \<Rightarrow>
               (if e = GeneratorExit \<or> e = StopIteration
                then (Inr PNone, set_gen g GFinished h)
                else (Inl e, set_gen g GFinished h)))
      | Some GRunning \<Rightarrow> (Inl (ValueError ''generator already executing''), h)
      | Some GFinished \<Rightarrow> (Inr PNone, h))"

text \<open>
  Attribute access on a Python value that is either a generator or \<open>None\<close>:
  \<open>None.send\<close>, \<open>None.throw\<close> and \<open>None.close\<close> raise \<open>AttributeError\<close>.
\<close>

definition py_send :: "gen_id option \<Rightarrow> pyval \<Rightarrow> heap \<Rightarrow> (exc + pyval) \<times> heap" where
  "py_send generator v h =
     (case generator of
        None \<Rightarrow> (Inl (AttributeError ''NoneType object has no attribute send''), h)
      | Some g \<Rightarrow> gen_send g v h)"

definition py_throw :: "gen_id option \<Rightarrow> exc \<Rightarrow> heap \<Rightarrow> (exc + pyval) \<times> heap" where
  "py_throw generator e h =
     (case generator of
        None \<Rightarrow> (Inl (AttributeError ''NoneType object has no attribute throw''), h)
      | Some g \<Rightarrow> gen_throw g e h)"

section \<open>Weak references\<close>

text \<open>Calling a weak reference object: the referent while it is allocated, else \<open>None\<close>.\<close>

definition deref :: "heap \<Rightarrow> weakref \<Rightarrow> gen_id option" where
  "deref h w = (case w of WeakRef g \<Rightarrow> (case gens h g of None \<Rightarrow> None | Some st \<Rightarrow> Some g))"

text \<open>\<open>weakref.ref(x)\<close> without a callback; \<open>None\<close> cannot be weakly referenced.\<close>

definition weakref_ref :: "gen_id option \<Rightarrow> exc + weakref" where
  "weakref_ref x =
     (case x of
        None \<Rightarrow> Inl (TypeError ''cannot create weak reference to NoneType object'')
      | Some g \<Rightarrow> Inr (WeakRef g))"

text \<open>
  \<open>weakref.ref(x, callback)\<close> allocates a weak reference object of its own and links it
  to the referent. The runtime unlinks it again when the weak reference object itself
  is deallocated, which happens as soon as nothing refers to it.
\<close>

definition weakref_ref_cb :: "gen_id \<Rightarrow> callback option \<Rightarrow> heap \<Rightarrow> nat \<times> heap" where
  "weakref_ref_cb g cb h =
     (let i = next_id h in (i, h\<lparr>wrefs := wrefs h @ [(i, g, cb)], next_id := Suc i\<rparr>))"

definition release_weakref :: "nat \<Rightarrow> heap \<Rightarrow> heap" where
  "release_weakref i h = h\<lparr>wrefs := filter (\<lambda>r. fst r \<noteq> i) (wrefs h)\<rparr>"

text \<open>
  Deallocation of generator \<open>g\<close> by the runtime: the object is gone, every weak
  reference object still linked to it is cleared and its callback, if any, is invoked
  (most recently registered first).
\<close>

definition callbacks_of :: "gen_id \<Rightarrow> (nat \<times> gen_id \<times> callback option) list \<Rightarrow> callback list" where
  "callbacks_of g rs =
     concat (map (\<lambda>r. case snd (snd r) of None \<Rightarrow> [] | Some cb \<Rightarrow> [cb])
                 (filter (\<lambda>r. fst (snd r) = g) (rev rs)))"

definition destroy_gen :: "gen_id \<Rightarrow> heap \<Rightarrow> heap" where
  "destroy_gen g h =
     h\<lparr>gens := (gens h)(g := None),
       fired := fired h @ callbacks_of g (wrefs h),
       wrefs := filter (\<lambda>r. fst (snd r) \<noteq> g) (wrefs h)\<rparr>"

section \<open>GeneratorWrapperBase and its two subclasses\<close>

definition alloc_handle :: "handle \<Rightarrow> heap \<Rightarrow> handle_id \<times> heap" where
  "alloc_handle obj h =
     (let i = next_id h in
      (i, h\<lparr>handles := (handles h)(i \<mapsto> obj), next_id := Suc i,
            stdout := stdout h @ (if debug obj then [PrintNew i] else [])\<rparr>))"

text \<open>\<open>WeakGeneratorWrapper(generator, catch_stopiteration, debug)\<close>\<close>

definition new_WeakGeneratorWrapper ::
  "gen_id option \<Rightarrow> bool \<Rightarrow> bool \<Rightarrow> heap \<Rightarrow> (exc + handle_id) \<times> heap" where
  "new_WeakGeneratorWrapper generator c d h =
     (case weakref_ref generator of
        Inl e \<Rightarrow> (Inl e, h)
      | Inr w \<Rightarrow> (case alloc_handle (WeakGeneratorWrapper w c d) h of (i, h') \<Rightarrow> (Inr i, h')))"

text \<open>\<open>StrongGeneratorWrapper(generator, catch_stopiteration, debug)\<close>\<close>

definition new_StrongGeneratorWrapper ::
  "gen_id option \<Rightarrow> bool \<Rightarrow> bool \<Rightarrow> heap \<Rightarrow> (exc + handle_id) \<times> heap" where
  "new_StrongGeneratorWrapper generator c d h =
     (case alloc_handle (StrongGeneratorWrapper generator c d) h of (i, h') \<Rightarrow> (Inr i, h'))"

text \<open>The \<open>generator\<close> attribute: a property resolving the weak reference, or the stored field.\<close>

definition generator :: "heap \<Rightarrow> handle \<Rightarrow> gen_id option" where
  "generator h obj =
     (case obj of
        WeakGeneratorWrapper w c d \<Rightarrow> deref h w
      | StrongGeneratorWrapper g c d \<Rightarrow> g)"

text \<open>\<open>_send(self, generator, value=None)\<close>\<close>

definition priv_send :: "handle \<Rightarrow> gen_id option \<Rightarrow> pyval \<Rightarrow> heap \<Rightarrow> (exc + pyval) \<times> heap" where
  "priv_send self gen v h =
     (let h1 = (if debug self then h\<lparr>stdout := stdout h @ [PrintSend gen v]\<rparr> else h) in
      if catch_stopiteration self then
        (case py_send gen v h1 of
           (Inl e, h2) \<Rightarrow> (if e = StopIteration then (Inr PNone, h2) else (Inl e, h2))
         | (Inr y, h2) \<Rightarrow> (Inr y, h2))
      else
        (case py_send gen v h1 of
           (Inl e, h2) \<Rightarrow> (Inl e, h2)
         | (Inr y, h2) \<Rightarrow> (Inr PNone, h2)))"

text \<open>
  \<open>_throw(self, generator, *args, **kwargs)\<close>; the arguments are those of
  \<open>generator.throw\<close> and stand for the exception to inject.
\<close>

definition priv_throw :: "handle \<Rightarrow> gen_id option \<Rightarrow> exc \<Rightarrow> heap \<Rightarrow> (exc + pyval) \<times> heap" where
  "priv_throw self gen e h =
     (let h1 = (if debug self then h\<lparr>stdout := stdout h @ [PrintThrow gen e]\<rparr> else h) in
      if catch_stopiteration self then
        (case py_throw gen e h1 of
           (Inl e', h2) \<Rightarrow> (if e' = StopIteration then (Inr PNone, h2) else (Inl e', h2))
         | (Inr y, h2) \<Rightarrow> (Inr y, h2))
      else
        (case py_throw gen e h1 of
           (Inl e', h2) \<Rightarrow> (Inl e', h2)
         | (Inr y, h2) \<Rightarrow> (Inr PNone, h2)))"

text \<open>
  The \<open>send\<close> and \<open>throw\<close> properties build \<open>partial(self._send, self.generator)\<close> and
  \<open>partial(self._throw, self.generator)\<close>: a callable that holds the wrapper instance
  (through the bound method) and the value \<open>self.generator\<close> had when the property was
  read. The \<open>close\<close> property is \<open>self.generator.close\<close>, a bound method of the generator.
\<close>

datatype send_partial = PartialSend handle_id "gen_id option"

datatype throw_partial = PartialThrow handle_id "gen_id option"

datatype close_method = BoundClose gen_id

definition send :: "handle_id \<Rightarrow> heap \<Rightarrow> exc + send_partial" where
  "send self h =
     (case handles h self of
        None \<Rightarrow> Inl (ReferenceError ''no such object'')
      | Some obj \<Rightarrow> Inr (PartialSend self (generator h obj)))"

definition throw :: "handle_id \<Rightarrow> heap \<Rightarrow> exc + throw_partial" where
  "throw self h =
     (case handles h self of
        None \<Rightarrow> Inl (ReferenceError ''no such object'')
      | Some obj \<Rightarrow> Inr (PartialThrow self (generator h obj)))"

definition close :: "handle_id \<Rightarrow> heap \<Rightarrow> exc + close_method" where
  "close self h =
     (case handles h self of
        None \<Rightarrow> Inl (ReferenceError ''no such object'')
      | Some obj \<Rightarrow>
          (case generator h obj of
             None \<Rightarrow> Inl (AttributeError ''NoneType object has no attribute close'')
           | Some g \<Rightarrow> Inr (BoundClose g)))"

text \<open>Calling what the properties returned.\<close>

definition call_send :: "send_partial \<Rightarrow> pyval \<Rightarrow> heap \<Rightarrow> (exc + pyval) \<times> heap" where
  "call_send p v h =
     (case p of PartialSend self gen \<Rightarrow>
        (case handles h self of
           None \<Rightarrow> (Inl (ReferenceError ''no such object''), h)
         | Some obj \<Rightarrow> priv_send obj gen v h))"

definition call_throw :: "throw_partial \<Rightarrow> exc \<Rightarrow> heap \<Rightarrow> (exc + pyval) \<times> heap" where
  "call_throw p e h =
     (case p of PartialThrow self gen \<Rightarrow>
        (case handles h self of
           None \<Rightarrow> (Inl (ReferenceError ''no such object''), h)
         | Some obj \<Rightarrow> priv_throw obj gen e h))"

definition call_close :: "close_method \<Rightarrow> heap \<Rightarrow> (exc + pyval) \<times> heap" where
  "call_close m h = (case m of BoundClose g \<Rightarrow> gen_close g h)"

text \<open>\<open>wrapper.send(value)\<close>, \<open>wrapper.throw(exc)\<close> and \<open>wrapper.close()\<close> in one go.\<close>

definition handle_send :: "handle_id \<Rightarrow> pyval \<Rightarrow> heap \<Rightarrow> (exc + pyval) \<times> heap" where
  "handle_send self v h = (case send self h of Inl e \<Rightarrow> (Inl e, h) | Inr p \<Rightarrow> call_send p v h)"

definition handle_throw :: "handle_id \<Rightarrow> exc \<Rightarrow> heap \<Rightarrow> (exc + pyval) \<times> heap" where
  "handle_throw self e h = (case throw self h of Inl e' \<Rightarrow> (Inl e', h) | Inr p \<Rightarrow> call_throw p e h)"

definition handle_close :: "handle_id \<Rightarrow> heap \<Rightarrow> (exc + pyval) \<times> heap" where
  "handle_close self h = (case close self h of Inl e \<Rightarrow> (Inl e, h) | Inr m \<Rightarrow> call_close m h)"

text \<open>
  The conversions. \<open>WeakGeneratorWrapper.with_weak_ref\<close> and
  \<open>StrongGeneratorWrapper.with_strong_ref\<close> are \<open>return self\<close>; the other two construct
  an instance of the other class from \<open>self.generator\<close>, \<open>self.catch_stopiteration\<close> and
  \<open>self.debug\<close>.
\<close>

definition with_strong_ref :: "handle_id \<Rightarrow> heap \<Rightarrow> (exc + handle_id) \<times> heap" where
  "with_strong_ref self h =
     (case handles h self of
        None \<Rightarrow> (Inl (ReferenceError ''no such object''), h)
      | Some obj \<Rightarrow>
          (case obj of
             WeakGeneratorWrapper w c d \<Rightarrow> new_StrongGeneratorWrapper (generator h obj) c d h
           | StrongGeneratorWrapper g c d \<Rightarrow> (Inr self, h)))"

definition with_weak_ref :: "handle_id \<Rightarrow> heap \<Rightarrow> (exc + handle_id) \<times> heap" where
  "with_weak_ref self h =
     (case handles h self of
        None \<Rightarrow> (Inl (ReferenceError ''no such object''), h)
      | Some obj \<Rightarrow>
          (case obj of
             WeakGeneratorWrapper w c d \<Rightarrow> (Inr self, h)
           | StrongGeneratorWrapper g c d \<Rightarrow> new_WeakGeneratorWrapper (generator h obj) c d h))"

text \<open>The expression \<open>wrapper.with_weak_ref().with_strong_ref()\<close>.\<close>

definition weak_then_strong :: "handle_id \<Rightarrow> heap \<Rightarrow> (exc + handle_id) \<times> heap" where
  "weak_then_strong self h =
     (case with_weak_ref self h of
        (Inl e, h1) \<Rightarrow> (Inl e, h1)
      | (Inr w, h1) \<Rightarrow> with_strong_ref w h1)"

text \<open>Both classes set \<open>__call__ = with_strong_ref\<close>.\<close>

definition call_handle :: "handle_id \<Rightarrow> heap \<Rightarrow> (exc + handle_id) \<times> heap" where
  "call_handle self h = with_strong_ref self h"

text \<open>
  The \<open>weak_generator\<close> attribute: the stored weak reference, or for the strong class the
  property \<open>weakref.ref(self.generator)\<close>.
\<close>

definition weak_generator_attr :: "handle \<Rightarrow> exc + weakref" where
  "weak_generator_attr obj =
     (case obj of
        WeakGeneratorWrapper w c d \<Rightarrow> Inr w
      | StrongGeneratorWrapper g c d \<Rightarrow> weakref_ref g)"

section \<open>The decorator\<close>

type_synonym genfunc = "pyval list \<Rightarrow> cont"

text \<open>Calling a generator function allocates a generator object that has not started.\<close>

definition new_generator :: "cont \<Rightarrow> heap \<Rightarrow> gen_id \<times> heap" where
  "new_generator body h =
     (let i = next_id h in (i, h\<lparr>gens := (gens h)(i \<mapsto> GCreated body), next_id := Suc i\<rparr>))"

text \<open>
  \<open>send_self_wrapper(*args, **kwargs)\<close> with the closure variables \<open>catch_stopiteration\<close>
  (\<open>c\<close>), \<open>finalize_callback\<close>, \<open>debug\<close> (\<open>d\<close>) and \<open>func\<close>. The statement
  \<open>weakref.ref(generator, finalize_callback)\<close> binds its result to no name, so the weak
  reference object it allocates is released at the end of that statement.
\<close>

definition send_self_wrapper ::
  "bool \<Rightarrow> callback option \<Rightarrow> bool \<Rightarrow> genfunc \<Rightarrow> pyval list \<Rightarrow> heap \<Rightarrow> (exc + pyval) \<times> heap" where
  "send_self_wrapper c finalize_callback d func args h =
     (let (g, h1) = new_generator (func args) h;
          (w, h2) = weakref_ref_cb g finalize_callback h1;
          h3 = release_weakref w h2
      in (case gen_next g h3 of
            (Inl e, h4) \<Rightarrow> (Inl e, h4)
          | (Inr ret_value, h4) \<Rightarrow>
              (case new_WeakGeneratorWrapper (Some g) c d h4 of
                 (Inl e, h5) \<Rightarrow> (Inl e, h5)
               | (Inr gen_wrapper, h5) \<Rightarrow>
                   (case gen_send g (PHandle gen_wrapper) h5 of
                      (Inl e, h6) \<Rightarrow> (Inl e, h6)
                    | (Inr y, h6) \<Rightarrow> (Inr ret_value, h6)))))"

text \<open>
  \<open>send_self(catch_stopiteration=True, finalize_callback=None, debug=False)\<close>: the first
  parameter is either the function being decorated (bare use) or the flag.
\<close>

datatype first_param = Callable genfunc | Flag bool

datatype decorated = Wrapper bool "callback option" bool genfunc

datatype send_self_result = Decorated decorated | Decorator "genfunc \<Rightarrow> decorated"

definition inner_send_self :: "bool \<Rightarrow> callback option \<Rightarrow> bool \<Rightarrow> genfunc \<Rightarrow> decorated" where
  "inner_send_self c finalize_callback d func = Wrapper c finalize_callback d func"

definition send_self :: "first_param \<Rightarrow> callback option \<Rightarrow> bool \<Rightarrow> send_self_result" where
  "send_self first finalize_callback d =
     (case first of
        Callable f \<Rightarrow> Decorated (inner_send_self True finalize_callback d f)
      | Flag b \<Rightarrow> Decorator (inner_send_self b finalize_callback d))"

definition call_decorated :: "decorated \<Rightarrow> pyval list \<Rightarrow> heap \<Rightarrow> (exc + pyval) \<times> heap" where
  "call_decorated L args h =
     (case L of Wrapper c finalize_callback d func \<Rightarrow>
        send_self_wrapper c finalize_callback d func args h)"

section \<open>Strong references and deallocation\<close>

text \<open>
  What a reference held by the surrounding program keeps allocated: a generator itself,
  a strong wrapper's \<open>generator\<close> field, the generator bound inside a \<open>partial\<close> (plus
  whatever the wrapper bound with it holds), the generator of a bound \<open>close\<close>. A weak
  wrapper holds nothing.
\<close>

datatype ref =
    RefGen gen_id
  | RefHandle handle_id
  | RefSend send_partial
  | RefThrow throw_partial
  | RefClose close_method

definition handle_strong :: "heap \<Rightarrow> handle_id \<Rightarrow> gen_id list" where
  "handle_strong h i =
     (case handles h i of
        Some (StrongGeneratorWrapper (Some g) c d) \<Rightarrow> [g]
      | _ \<Rightarrow> [])"

fun strong_gens :: "heap \<Rightarrow> ref \<Rightarrow> gen_id list" where
  "strong_gens h (RefGen g) = [g]"
| "strong_gens h (RefHandle i) = handle_strong h i"
| "strong_gens h (RefSend (PartialSend i gen)) = (case gen of None \<Rightarrow> [] | Some g \<Rightarrow> [g]) @ handle_strong h i"
| "strong_gens h (RefThrow (PartialThrow i gen)) = (case gen of None \<Rightarrow> [] | Some g \<Rightarrow> [g]) @ handle_strong h i"
| "strong_gens h (RefClose (BoundClose g)) = [g]"

text \<open>
  The runtime deallocates a generator once nothing holds a strong reference to it;
  \<open>roots\<close> are the references the program still holds.
\<close>

definition gc_step :: "ref list \<Rightarrow> gen_id \<Rightarrow> heap \<Rightarrow> heap" where
  "gc_step roots g h =
     (if g \<in> set (concat (map (strong_gens h) roots)) then h else destroy_gen g h)"

section \<open>Sample generators and stores\<close>

text \<open>
  \<open>gen_end\<close> is a frame with no \<open>yield\<close> left; \<open>gen_yield y k\<close> is a frame whose next
  step yields \<open>y\<close> and goes on as \<open>k\<close>, outside any \<open>try\<close>; \<open>gen_try y k y' k'\<close> is the
  frame of
  \<^verbatim>\<open>try: yield ... except TypeError: yield y'\<close>
  as in the module's own \<open>sub_generator\<close>: resumed with a value it goes on to yield \<open>y\<close>,
  with a \<open>TypeError\<close> thrown in it yields \<open>y'\<close>.
\<close>

definition gen_end :: cont where
  "gen_end = Cont (\<lambda>i. case i of Send v \<Rightarrow> Returned | Throw e \<Rightarrow> Raised e)"

definition gen_yield :: "pyval \<Rightarrow> cont \<Rightarrow> cont" where
  "gen_yield y k = Cont (\<lambda>i. case i of Send v \<Rightarrow> Yielded y k | Throw e \<Rightarrow> Raised e)"

definition gen_try :: "pyval \<Rightarrow> cont \<Rightarrow> pyval \<Rightarrow> cont \<Rightarrow> cont" where
  "gen_try y k y' k' =
     Cont (\<lambda>i. case i of
                  Send v \<Rightarrow> Yielded y k
                | Throw e \<Rightarrow> (case e of TypeError m \<Rightarrow> Yielded y' k' | _ \<Rightarrow> Raised e))"

text \<open>A store with one generator (object 0) in state \<open>st\<close> and one wrapper (object 1).\<close>

definition heap_with :: "gstate \<Rightarrow> handle \<Rightarrow> heap" where
  "heap_with st obj = \<lparr>gens = [0 \<mapsto> st], handles = [1 \<mapsto> obj], wrefs = [], next_id = 2,
                        fired = [], stdout = []\<rparr>"

text \<open>
  The same store after the runtime has looked at generator 0 with the wrapper as the only
  reference the program holds: a weak wrapper does not keep the generator, so it is gone.
\<close>

definition heap_gone :: "handle \<Rightarrow> heap" where
  "heap_gone obj = gc_step [RefHandle 1] 0 (heap_with (GSuspended gen_end) obj)"

text \<open>
  The store left by launching
  \<^verbatim>\<open>@send_self(finalize_callback=finalized) def run(): this = yield; yield\<close>
  in an empty store: generator 0 is suspended at its second \<open>yield\<close>, wrapper 2 is weak.
\<close>

definition launched :: heap where
  "launched = snd (send_self_wrapper True (Some ''finalized'') False
                     (\<lambda>args. gen_yield PNone (gen_yield PNone gen_end)) [] empty_heap)"

section \<open>Basic facts\<close>

lemma heap_with_simps [simp]:
  "gens (heap_with st obj) 0 = Some st"
  "handles (heap_with st obj) (Suc 0) = Some obj"
  "next_id (heap_with st obj) = 2"
  by (simp_all add: heap_with_def)

lemma heap_gone_simps:
  "handles (heap_gone obj) (Suc 0) = Some obj"
  "next_id (heap_gone obj) = 2"
  "gens (heap_gone (WeakGeneratorWrapper w c d)) 0 = None"
  by (simp_all add: heap_gone_def gc_step_def handle_strong_def destroy_gen_def heap_with_def)

lemma launched_simps:
  "gens launched = [0 \<mapsto> GSuspended gen_end]"
  "handles launched = [2 \<mapsto> WeakGeneratorWrapper (WeakRef 0) True False]"
  "wrefs launched = []"
  "fired launched = []"
  "next_id launched = 3"
  by (simp_all add: launched_def send_self_wrapper_def new_generator_def weakref_ref_cb_def
      release_weakref_def gen_next_def gen_send_def run_frame_def set_gen_def
      new_WeakGeneratorWrapper_def weakref_ref_def alloc_handle_def Let_def
      empty_heap_def gen_yield_def numeral_2_eq_2 numeral_3_eq_3)

lemma handle_send_live:
  assumes "handles h self = Some obj" and "generator h obj = Some g"
  shows "handle_send self v h = priv_send obj (Some g) v h"
  using assms by (simp add: handle_send_def send_def call_send_def)

lemma handle_throw_live:
  assumes "handles h self = Some obj" and "generator h obj = Some g"
  shows "handle_throw self e h = priv_throw obj (Some g) e h"
  using assms by (simp add: handle_throw_def throw_def call_throw_def)

section \<open>Resuming through a wrapper\<close>

text \<open>
  C2. The claim: for every live suspended coroutine, \<open>send\<close> returns the value yielded
  at the next suspension point whether \<open>catch_stopiteration\<close> is true or false. The
  \<open>else\<close> branch of \<open>_send\<close> calls \<open>generator.send(value)\<close> without returning its result:
  on a generator about to yield \<open>second\<close>, a wrapper with \<open>catch_stopiteration = False\<close>
  returns \<open>None\<close>, while the same wrapper with \<open>catch_stopiteration = True\<close> returns
  \<open>second\<close>.
\<close>

theorem send_without_catch_returns_None:
  "fst (handle_send 1 PNone
          (heap_with (GSuspended (gen_yield (PStr ''second'') gen_end))
                     (StrongGeneratorWrapper (Some 0) False False))) = Inr PNone
   \<and> fst (handle_send 1 PNone
          (heap_with (GSuspended (gen_yield (PStr ''second'') gen_end))
                     (StrongGeneratorWrapper (Some 0) True False))) = Inr (PStr ''second'')"
  by (simp add: handle_send_def send_def call_send_def generator_def priv_send_def py_send_def
      gen_send_def run_frame_def gen_yield_def)

text \<open>
  C3. Resuming an already terminated coroutine through a wrapper that resolves to it:
  with \<open>catch_stopiteration\<close> set the result is \<open>None\<close> and nothing is raised, otherwise
  \<open>StopIteration\<close> reaches the caller. The generator stays as it was.
\<close>

theorem resume_terminated:
  assumes "handles h self = Some obj" and "generator h obj = Some g"
    and "gens h g = Some GFinished"
  shows "fst (handle_send self v h) =
           (if catch_stopiteration obj then Inr PNone else Inl StopIteration)
       \<and> gens (snd (handle_send self v h)) = gens h"
  using assms
  by (simp add: handle_send_live priv_send_def py_send_def gen_send_def Let_def)

theorem resume_terminated_witness:
  "fst (handle_send 1 (PInt 5)
          (heap_with GFinished (StrongGeneratorWrapper (Some 0) True False))) = Inr PNone
   \<and> fst (handle_send 1 (PInt 5)
          (heap_with GFinished (WeakGeneratorWrapper (WeakRef 0) False False))) = Inl StopIteration"
  using resume_terminated [where h = "heap_with GFinished (StrongGeneratorWrapper (Some 0) True False)"
      and self = 1 and obj = "StrongGeneratorWrapper (Some 0) True False" and g = 0 and v = "PInt 5"]
    resume_terminated [where h = "heap_with GFinished (WeakGeneratorWrapper (WeakRef 0) False False)"
      and self = 1 and obj = "WeakGeneratorWrapper (WeakRef 0) False False" and g = 0 and v = "PInt 5"]
  by (simp add: generator_def deref_def)

section \<open>Throwing through a wrapper\<close>

text \<open>
  C7, as stated: \<open>throw\<close> follows the same termination rules as \<open>send\<close> when the
  coroutine is already terminated. It does not: \<open>generator.throw\<close> on a finished
  generator raises the injected exception itself, which \<open>_throw\<close> does not catch, whereas
  \<open>send\<close> on the same wrapper returns \<open>None\<close>.
\<close>

theorem throw_terminated_counterexample:
  "fst (handle_throw 1 (TypeError ''late'')
          (heap_with GFinished (StrongGeneratorWrapper (Some 0) True False))) = Inl (TypeError ''late'')
   \<and> fst (handle_send 1 PNone
          (heap_with GFinished (StrongGeneratorWrapper (Some 0) True False))) = Inr PNone"
  by (simp add: handle_send_def send_def call_send_def generator_def priv_send_def py_send_def
      gen_send_def handle_throw_def throw_def call_throw_def priv_throw_def py_throw_def gen_throw_def)

text \<open>
  C7, amended. The injected error is delivered at the current suspension point. If the
  body catches it and yields a follow-up value and \<open>catch_stopiteration\<close> is set, \<open>throw\<close>
  returns exactly that value. If the body returns during the call, the result is \<open>None\<close>
  with \<open>catch_stopiteration\<close> set and \<open>StopIteration\<close> is raised otherwise. An error the
  body lets escape reaches the caller. On an already terminated coroutine the injected
  error itself is raised to the caller; it becomes \<open>None\<close> only when it is
  \<open>StopIteration\<close> and \<open>catch_stopiteration\<close> is set.
\<close>

theorem throw_into_contract:
  assumes "handles h self = Some obj" and "generator h obj = Some g"
  shows "(gens h g = Some (GSuspended k) \<and> resume k (Throw e) = Yielded y k' \<and> catch_stopiteration obj
            \<longrightarrow> fst (handle_throw self e h) = Inr y
              \<and> gens (snd (handle_throw self e h)) g = Some (GSuspended k'))
       \<and> (gens h g = Some (GSuspended k) \<and> resume k (Throw e) = Returned
            \<longrightarrow> fst (handle_throw self e h) = (if catch_stopiteration obj then Inr PNone else Inl StopIteration)
              \<and> gens (snd (handle_throw self e h)) g = Some GFinished)
       \<and> (gens h g = Some (GSuspended k) \<and> resume k (Throw e) = Raised e' \<and> e' \<noteq> StopIteration
            \<longrightarrow> fst (handle_throw self e h) = Inl e'
              \<and> gens (snd (handle_throw self e h)) g = Some GFinished)
       \<and> (gens h g = Some GFinished
            \<longrightarrow> fst (handle_throw self e h) = (if catch_stopiteration obj \<and> e = StopIteration then Inr PNone else Inl e)
              \<and> gens (snd (handle_throw self e h)) g = Some GFinished)"
  using assms
  by (auto simp add: handle_throw_live priv_throw_def py_throw_def gen_throw_def run_frame_def set_gen_def Let_def)

theorem throw_into_contract_witness:
  "fst (handle_throw 1 (TypeError ''3 is greater than 2'')
          (heap_with (GSuspended (gen_try PNone gen_end (PStr ''sorry'') gen_end))
                     (WeakGeneratorWrapper (WeakRef 0) True False))) = Inr (PStr ''sorry'')
   \<and> fst (handle_throw 1 GeneratorExit
          (heap_with (GSuspended (Cont (\<lambda>i. Returned)))
                     (WeakGeneratorWrapper (WeakRef 0) False False))) = Inl StopIteration
   \<and> fst (handle_throw 1 (ValueError ''v'')
          (heap_with (GSuspended (gen_try PNone gen_end (PStr ''sorry'') gen_end))
                     (WeakGeneratorWrapper (WeakRef 0) True False))) = Inl (ValueError ''v'')
   \<and> fst (handle_throw 1 (TypeError ''late'')
          (heap_with GFinished (StrongGeneratorWrapper (Some 0) True False))) = Inl (TypeError ''late'')"
  using throw_into_contract [where h = "heap_with (GSuspended (gen_try PNone gen_end (PStr ''sorry'') gen_end))
                     (WeakGeneratorWrapper (WeakRef 0) True False)" and self = 1
      and obj = "WeakGeneratorWrapper (WeakRef 0) True False" and g = 0
      and e = "TypeError ''3 is greater than 2''" and k = "gen_try PNone gen_end (PStr ''sorry'') gen_end"
      and y = "PStr ''sorry''" and k' = gen_end]
    throw_into_contract [where h = "heap_with (GSuspended (Cont (\<lambda>i. Returned)))
                     (WeakGeneratorWrapper (WeakRef 0) False False)" and self = 1
      and obj = "WeakGeneratorWrapper (WeakRef 0) False False" and g = 0
      and e = GeneratorExit and k = "Cont (\<lambda>i. Returned)"]
    throw_into_contract [where h = "heap_with (GSuspended (gen_try PNone gen_end (PStr ''sorry'') gen_end))
                     (WeakGeneratorWrapper (WeakRef 0) True False)" and self = 1
      and obj = "WeakGeneratorWrapper (WeakRef 0) True False" and g = 0
      and e = "ValueError ''v''" and k = "gen_try PNone gen_end (PStr ''sorry'') gen_end"
      and e' = "ValueError ''v''"]
    throw_into_contract [where h = "heap_with GFinished (StrongGeneratorWrapper (Some 0) True False)"
      and self = 1 and obj = "StrongGeneratorWrapper (Some 0) True False" and g = 0
      and e = "TypeError ''late''"]
  by (simp add: generator_def deref_def gen_try_def)

section \<open>A weak wrapper whose generator is gone\<close>

text \<open>
  C5, as stated: every operation of a weak wrapper whose coroutine no longer exists is a
  no-op or returns a ``no referent'' value, never an error. With the generator
  deallocated, \<open>send\<close> and \<open>throw\<close> call \<open>None.send\<close> and \<open>None.throw\<close>, and \<open>close\<close>
  reads \<open>None.close\<close>: each raises \<open>AttributeError\<close>, which \<open>_send\<close> and \<open>_throw\<close> do
  not catch.
\<close>

theorem dangling_weak_counterexample:
  "gens (gc_step [RefHandle 1] 0
           (heap_with (GSuspended gen_end) (WeakGeneratorWrapper (WeakRef 0) True False))) 0 = None
   \<and> fst (handle_send 1 PNone
        (gc_step [RefHandle 1] 0
           (heap_with (GSuspended gen_end) (WeakGeneratorWrapper (WeakRef 0) True False))))
       = Inl (AttributeError ''NoneType object has no attribute send'')
   \<and> fst (handle_throw 1 (TypeError ''x'')
        (gc_step [RefHandle 1] 0
           (heap_with (GSuspended gen_end) (WeakGeneratorWrapper (WeakRef 0) True False))))
       = Inl (AttributeError ''NoneType object has no attribute throw'')
   \<and> fst (handle_close 1
        (gc_step [RefHandle 1] 0
           (heap_with (GSuspended gen_end) (WeakGeneratorWrapper (WeakRef 0) True False))))
       = Inl (AttributeError ''NoneType object has no attribute close'')"
  by (simp add: gc_step_def handle_strong_def destroy_gen_def heap_with_def
      handle_send_def send_def call_send_def generator_def deref_def priv_send_def py_send_def
      handle_throw_def throw_def call_throw_def priv_throw_def py_throw_def
      handle_close_def close_def)

text \<open>
  C5, amended. For a weak wrapper whose coroutine no longer exists: resolving it
  (\<open>generator\<close>) gives \<open>None\<close>; \<open>with_weak_ref\<close> returns the wrapper itself and changes
  nothing; \<open>with_strong_ref\<close> (and calling the wrapper) returns a new strong wrapper
  whose \<open>generator\<close> is \<open>None\<close> in every later store; reading \<open>send\<close> or \<open>throw\<close> gives a
  callable bound to \<open>None\<close> whose invocation raises \<open>AttributeError\<close>; reading \<open>close\<close>
  raises \<open>AttributeError\<close>.
\<close>

theorem dangling_weak_handle:
  assumes "handles h self = Some (WeakGeneratorWrapper (WeakRef g) c d)" and "gens h g = None"
  shows "generator h (WeakGeneratorWrapper (WeakRef g) c d) = None
       \<and> with_weak_ref self h = (Inr self, h)
       \<and> fst (with_strong_ref self h) = Inr (next_id h)
       \<and> handles (snd (with_strong_ref self h)) (next_id h) = Some (StrongGeneratorWrapper None c d)
       \<and> gens (snd (with_strong_ref self h)) = gens h
       \<and> generator h' (StrongGeneratorWrapper None c d) = None
       \<and> call_handle self h = with_strong_ref self h
       \<and> send self h = Inr (PartialSend self None)
       \<and> fst (call_send (PartialSend self None) v h)
           = Inl (AttributeError ''NoneType object has no attribute send'')
       \<and> throw self h = Inr (PartialThrow self None)
       \<and> fst (call_throw (PartialThrow self None) e h)
           = Inl (AttributeError ''NoneType object has no attribute throw'')
       \<and> close self h = Inl (AttributeError ''NoneType object has no attribute close'')"
  using assms
  by (simp add: generator_def deref_def with_weak_ref_def with_strong_ref_def
      new_StrongGeneratorWrapper_def alloc_handle_def Let_def call_handle_def
      send_def throw_def close_def call_send_def call_throw_def
      priv_send_def priv_throw_def py_send_def py_throw_def)

theorem dangling_weak_handle_witness:
  "with_weak_ref 1 (heap_gone (WeakGeneratorWrapper (WeakRef 0) True False))
     = (Inr 1, heap_gone (WeakGeneratorWrapper (WeakRef 0) True False))
   \<and> fst (with_strong_ref 1 (heap_gone (WeakGeneratorWrapper (WeakRef 0) True False))) = Inr 2
   \<and> handles (snd (with_strong_ref 1 (heap_gone (WeakGeneratorWrapper (WeakRef 0) True False)))) 2
       = Some (StrongGeneratorWrapper None True False)
   \<and> send 1 (heap_gone (WeakGeneratorWrapper (WeakRef 0) True False)) = Inr (PartialSend 1 None)
   \<and> close 1 (heap_gone (WeakGeneratorWrapper (WeakRef 0) True False))
       = Inl (AttributeError ''NoneType object has no attribute close'')"
  using dangling_weak_handle [where h = "heap_gone (WeakGeneratorWrapper (WeakRef 0) True False)"
      and self = 1 and g = 0 and c = True and d = False]
  by (simp add: heap_gone_simps)

section \<open>The launcher\<close>

text \<open>
  C6, as stated: when the coroutine terminates while the launcher advances it, the
  outcome follows the wrapper's \<open>send\<close> contract, so with \<open>catch_stopiteration\<close> set the
  termination is swallowed. The launcher calls \<open>next(generator)\<close> and
  \<open>generator.send(gen_wrapper)\<close> on the generator itself: for
  \<^verbatim>\<open>def func(): yield\<close>
  launched with \<open>catch_stopiteration = True\<close>, the second advance ends the body and
  \<open>StopIteration\<close> leaves the launcher.
\<close>

theorem launcher_termination_counterexample:
  "fst (send_self_wrapper True None False (\<lambda>args. gen_yield PNone gen_end) [] empty_heap)
     = Inl StopIteration"
  by (simp add: send_self_wrapper_def new_generator_def weakref_ref_cb_def release_weakref_def
      gen_next_def gen_send_def run_frame_def set_gen_def new_WeakGeneratorWrapper_def
      weakref_ref_def alloc_handle_def empty_heap_def gen_yield_def gen_end_def Let_def)

text \<open>
  C6, amended. If the coroutine returns or raises during the first advance or during the
  delivery of the wrapper, \<open>StopIteration\<close> respectively the raised error reaches the
  launcher's caller unchanged, whatever \<open>catch_stopiteration\<close> is; the launcher neither
  catches nor adds anything.
\<close>

theorem launcher_termination:
  "(resume (func args) (Send PNone) = Returned
      \<longrightarrow> fst (send_self_wrapper c fc d func args h) = Inl StopIteration)
   \<and> (resume (func args) (Send PNone) = Raised e
      \<longrightarrow> fst (send_self_wrapper c fc d func args h) = Inl e)
   \<and> (resume (func args) (Send PNone) = Yielded y k
        \<and> resume k (Send (PHandle (next_id h + 2))) = Returned
      \<longrightarrow> fst (send_self_wrapper c fc d func args h) = Inl StopIteration)
   \<and> (resume (func args) (Send PNone) = Yielded y k
        \<and> resume k (Send (PHandle (next_id h + 2))) = Raised e
      \<longrightarrow> fst (send_self_wrapper c fc d func args h) = Inl e)"
  by (simp add: send_self_wrapper_def new_generator_def weakref_ref_cb_def release_weakref_def
      gen_next_def gen_send_def run_frame_def set_gen_def new_WeakGeneratorWrapper_def
      weakref_ref_def alloc_handle_def Let_def)

theorem launcher_termination_witness:
  "fst (send_self_wrapper True (Some ''cb'') True (\<lambda>args. gen_end) [PInt 1] empty_heap)
     = Inl StopIteration
   \<and> fst (send_self_wrapper True None False
           (\<lambda>args. Cont (\<lambda>i. Raised (ValueError ''boom''))) [] empty_heap)
     = Inl (ValueError ''boom'')
   \<and> fst (send_self_wrapper False None False
           (\<lambda>args. gen_yield (PStr ''first'') gen_end) [] empty_heap)
     = Inl StopIteration
   \<and> fst (send_self_wrapper True None False
           (\<lambda>args. gen_yield (PStr ''first'') (Cont (\<lambda>i. Raised (ValueError ''boom'')))) []
           empty_heap)
     = Inl (ValueError ''boom'')"
  using launcher_termination [where func = "\<lambda>args. gen_end" and args = "[PInt 1]"
      and c = True and fc = "Some ''cb''" and d = True and h = empty_heap]
    launcher_termination [where func = "\<lambda>args. Cont (\<lambda>i. Raised (ValueError ''boom''))"
      and args = "[]" and e = "ValueError ''boom''"
      and c = True and fc = None and d = False and h = empty_heap]
    launcher_termination [where func = "\<lambda>args. gen_yield (PStr ''first'') gen_end"
      and args = "[]" and y = "PStr ''first''" and k = gen_end
      and c = False and fc = None and d = False and h = empty_heap]
    launcher_termination [where
      func = "\<lambda>args. gen_yield (PStr ''first'') (Cont (\<lambda>i. Raised (ValueError ''boom'')))"
      and args = "[]" and y = "PStr ''first''" and k = "Cont (\<lambda>i. Raised (ValueError ''boom''))"
      and e = "ValueError ''boom''"
      and c = True and fc = None and d = False and h = empty_heap]
  by (simp add: gen_yield_def gen_end_def)

text \<open>
  C1, as stated: for every decorated function and every argument list the call returns
  the value of the coroutine's first \<open>yield\<close>. For
  \<^verbatim>\<open>def func(): yield 'panel'\<close>
  the first advance yields \<open>panel\<close>, but the body ends when the wrapper is sent in:
  \<open>generator.send(gen_wrapper)\<close> raises \<open>StopIteration\<close> and \<open>return ret_value\<close> is
  never reached.
\<close>

theorem launcher_single_yield_counterexample:
  "resume (gen_yield (PStr ''panel'') gen_end) (Send PNone) = Yielded (PStr ''panel'') gen_end
   \<and> fst (call_decorated
            (Wrapper False None True (\<lambda>args. gen_yield (PStr ''panel'') gen_end))
            [] empty_heap) = Inl StopIteration
   \<and> fst (call_decorated
            (Wrapper False None True (\<lambda>args. gen_yield (PStr ''panel'') gen_end))
            [] empty_heap) \<noteq> Inr (PStr ''panel'')"
  by (simp add: call_decorated_def send_self_wrapper_def new_generator_def weakref_ref_cb_def
      release_weakref_def gen_next_def gen_send_def run_frame_def set_gen_def
      new_WeakGeneratorWrapper_def weakref_ref_def alloc_handle_def empty_heap_def
      gen_yield_def gen_end_def Let_def)

text \<open>
  C1, amended. For a coroutine that suspends at its first advance and suspends again
  when the wrapper is delivered: calling the decorated function allocates one generator,
  advances it with \<open>next\<close> (no value supplied) to its first \<open>yield\<close>, constructs a weak
  wrapper around it with the decorator's \<open>catch_stopiteration\<close> and \<open>debug\<close>, sends that
  wrapper in, and returns the value of the first \<open>yield\<close>; the value of the second
  \<open>yield\<close> is dropped. The decorator passes \<open>True\<close> for \<open>catch_stopiteration\<close> when used
  bare and the given flag otherwise.
\<close>

theorem launcher_contract:
  assumes "resume (func args) (Send PNone) = Yielded ret ka"
    and "resume ka (Send (PHandle (next_id h + 2))) = Yielded y kb"
  shows "fst (call_decorated (Wrapper c fc d func) args h) = Inr ret
       \<and> gens (snd (call_decorated (Wrapper c fc d func) args h))
           = (gens h)(next_id h \<mapsto> GSuspended kb)
       \<and> handles (snd (call_decorated (Wrapper c fc d func) args h))
           = (handles h)(next_id h + 2 \<mapsto> WeakGeneratorWrapper (WeakRef (next_id h)) c d)
       \<and> next_id (snd (call_decorated (Wrapper c fc d func) args h)) = next_id h + 3
       \<and> send_self (Callable func) fc d = Decorated (Wrapper True fc d func)
       \<and> send_self (Flag c) fc d = Decorator (Wrapper c fc d)"
proof -
  have cfg: "inner_send_self c' fc d = Wrapper c' fc d" for c'
    by (rule ext) (simp add: inner_send_self_def)
  show ?thesis
    using assms
    by (simp add: call_decorated_def send_self_wrapper_def new_generator_def weakref_ref_cb_def
        release_weakref_def gen_next_def gen_send_def run_frame_def set_gen_def
        new_WeakGeneratorWrapper_def weakref_ref_def alloc_handle_def Let_def
        send_self_def cfg inner_send_self_def)
qed

theorem launcher_contract_witness:
  "fst (call_decorated
          (Wrapper False (Some ''finalized'') True
             (\<lambda>args. gen_yield (PStr ''panel'') (gen_yield (PStr ''timer'') gen_end)))
          [] empty_heap) = Inr (PStr ''panel'')
   \<and> handles (snd (call_decorated
          (Wrapper False (Some ''finalized'') True
             (\<lambda>args. gen_yield (PStr ''panel'') (gen_yield (PStr ''timer'') gen_end)))
          [] empty_heap)) 2 = Some (WeakGeneratorWrapper (WeakRef 0) False True)
   \<and> gens (snd (call_decorated
          (Wrapper False (Some ''finalized'') True
             (\<lambda>args. gen_yield (PStr ''panel'') (gen_yield (PStr ''timer'') gen_end)))
          [] empty_heap)) 0 = Some (GSuspended gen_end)"
  using launcher_contract [where
      func = "\<lambda>args. gen_yield (PStr ''panel'') (gen_yield (PStr ''timer'') gen_end)"
      and args = "[]" and h = empty_heap and ret = "PStr ''panel''"
      and ka = "gen_yield (PStr ''timer'') gen_end" and y = "PStr ''timer''" and kb = gen_end
      and c = False and fc = "Some ''finalized''" and d = True]
  by (simp add: gen_yield_def empty_heap_def)

text \<open>
  C4. The claim: the finalize callback fires exactly once when the coroutine becomes
  collectible. The launcher's statement \<open>weakref.ref(generator, finalize_callback)\<close>
  keeps no reference to the weak reference object that carries the callback, so that
  object is gone before the generator is: after the launch no callback is linked to the
  generator, the registration does not keep the generator allocated, and when the
  runtime deallocates the generator nothing fires. The last conjunct is the same
  deallocation with the weak reference object still held: there the callback fires.
\<close>

theorem finalize_callback_never_fires:
  "gens launched 0 = Some (GSuspended gen_end)
   \<and> wrefs launched = []
   \<and> gens (gc_step [] 0 launched) 0 = None
   \<and> fired (gc_step [] 0 launched) = []
   \<and> fired (destroy_gen 0 (snd (weakref_ref_cb 0 (Some ''finalized'')
               (snd (new_generator gen_end empty_heap))))) = [''finalized'']"
  by (simp add: launched_simps gc_step_def destroy_gen_def callbacks_of_def
      weakref_ref_cb_def new_generator_def empty_heap_def Let_def)

section \<open>Conversions between the two classes\<close>

lemma weak_then_strong_live:
  assumes "handles h s = Some (StrongGeneratorWrapper (Some g) c d)"
    and "gens h g = Some st"
  shows "weak_then_strong s h =
           (Inr (Suc (next_id h)),
            h\<lparr>handles := (handles h)(next_id h \<mapsto> WeakGeneratorWrapper (WeakRef g) c d,
                                     Suc (next_id h) \<mapsto> StrongGeneratorWrapper (Some g) c d),
              next_id := Suc (Suc (next_id h)),
              stdout := stdout h @ (if d then [PrintNew (next_id h), PrintNew (Suc (next_id h))] else [])\<rparr>)"
  using assms
  by (simp add: weak_then_strong_def with_weak_ref_def with_strong_ref_def generator_def
      deref_def new_WeakGeneratorWrapper_def new_StrongGeneratorWrapper_def weakref_ref_def
      alloc_handle_def Let_def)

lemma priv_send_handles: "handles (snd (priv_send obj gen v h)) = handles h"
  by (simp add: priv_send_def py_send_def gen_send_def run_frame_def set_gen_def Let_def
      split: option.splits gstate.splits outcome.splits)

lemma priv_throw_handles: "handles (snd (priv_throw obj gen e h)) = handles h"
  by (simp add: priv_throw_def py_throw_def gen_throw_def run_frame_def set_gen_def Let_def
      split: option.splits gstate.splits outcome.splits)

lemma gen_close_handles: "handles (snd (gen_close g h)) = handles h"
  by (simp add: gen_close_def set_gen_def split: option.splits gstate.splits outcome.splits)

text \<open>
  C8. From a strong wrapper of a live coroutine, \<open>with_weak_ref\<close> followed by
  \<open>with_strong_ref\<close> gives a strong wrapper of the same generator object with the same
  \<open>catch_stopiteration\<close> and \<open>debug\<close>. In the resulting store \<open>send\<close> and \<open>throw\<close>
  through the new wrapper give the same result and the same store as through the
  original one, and the result and the generators agree with what the original wrapper
  would have done before the conversion.
\<close>

theorem strong_weak_strong:
  assumes "handles h s = Some (StrongGeneratorWrapper (Some g) c d)"
    and "gens h g = Some st" and "s < next_id h"
  shows "fst (weak_then_strong s h) = Inr (Suc (next_id h))
       \<and> handles (snd (weak_then_strong s h)) (Suc (next_id h))
           = Some (StrongGeneratorWrapper (Some g) c d)
       \<and> handles (snd (weak_then_strong s h)) s = Some (StrongGeneratorWrapper (Some g) c d)
       \<and> gens (snd (weak_then_strong s h)) = gens h
       \<and> handle_send (Suc (next_id h)) v (snd (weak_then_strong s h))
           = handle_send s v (snd (weak_then_strong s h))
       \<and> handle_throw (Suc (next_id h)) e (snd (weak_then_strong s h))
           = handle_throw s e (snd (weak_then_strong s h))
       \<and> fst (handle_send (Suc (next_id h)) v (snd (weak_then_strong s h)))
           = fst (handle_send s v h)
       \<and> gens (snd (handle_send (Suc (next_id h)) v (snd (weak_then_strong s h))))
           = gens (snd (handle_send s v h))"
proof -
  let ?h2 = "snd (weak_then_strong s h)"
  have new: "handles ?h2 (Suc (next_id h)) = Some (StrongGeneratorWrapper (Some g) c d)"
    using assms by (simp add: weak_then_strong_live)
  have old: "handles ?h2 s = Some (StrongGeneratorWrapper (Some g) c d)"
    using assms by (simp add: weak_then_strong_live)
  have res: "generator ?h2 (StrongGeneratorWrapper (Some g) c d) = Some g"
    by (simp add: generator_def)
  have gs: "gens ?h2 = gens h"
    using assms by (simp add: weak_then_strong_live)
  have s1: "handle_send (Suc (next_id h)) v ?h2 = priv_send (StrongGeneratorWrapper (Some g) c d) (Some g) v ?h2"
    by (rule handle_send_live [OF new res])
  have s2: "handle_send s v ?h2 = priv_send (StrongGeneratorWrapper (Some g) c d) (Some g) v ?h2"
    by (rule handle_send_live [OF old res])
  have t1: "handle_throw (Suc (next_id h)) e ?h2 = priv_throw (StrongGeneratorWrapper (Some g) c d) (Some g) e ?h2"
    by (rule handle_throw_live [OF new res])
  have t2: "handle_throw s e ?h2 = priv_throw (StrongGeneratorWrapper (Some g) c d) (Some g) e ?h2"
    by (rule handle_throw_live [OF old res])
  have s0: "handle_send s v h = priv_send (StrongGeneratorWrapper (Some g) c d) (Some g) v h"
    by (rule handle_send_live [OF assms(1)]) (simp add: generator_def)
  have same: "fst (priv_send obj (Some g) v ?h2) = fst (priv_send obj (Some g) v h)
            \<and> gens (snd (priv_send obj (Some g) v ?h2)) = gens (snd (priv_send obj (Some g) v h))" for obj
    using assms
    by (simp add: weak_then_strong_live priv_send_def py_send_def gen_send_def run_frame_def
        set_gen_def Let_def split: gstate.splits outcome.splits)
  have r: "fst (weak_then_strong s h) = Inr (Suc (next_id h))"
    using assms by (simp add: weak_then_strong_live)
  have eq_send: "handle_send (Suc (next_id h)) v ?h2 = handle_send s v ?h2"
    by (simp only: s1 s2)
  have eq_throw: "handle_throw (Suc (next_id h)) e ?h2 = handle_throw s e ?h2"
    by (simp only: t1 t2)
  have f: "fst (handle_send (Suc (next_id h)) v ?h2) = fst (handle_send s v h)"
    using same by (simp only: s1 s0)
  have gg: "gens (snd (handle_send (Suc (next_id h)) v ?h2)) = gens (snd (handle_send s v h))"
    using same by (simp only: s1 s0)
  show ?thesis
    using r new old gs eq_send eq_throw f gg by blast
qed

theorem strong_weak_strong_witness:
  "fst (weak_then_strong 1
          (heap_with (GSuspended (gen_yield (PStr ''second'') gen_end))
                     (StrongGeneratorWrapper (Some 0) True True))) = Inr 3
   \<and> handles (snd (weak_then_strong 1
          (heap_with (GSuspended (gen_yield (PStr ''second'') gen_end))
                     (StrongGeneratorWrapper (Some 0) True True)))) 3
        = Some (StrongGeneratorWrapper (Some 0) True True)
   \<and> fst (handle_send 3 PNone (snd (weak_then_strong 1
          (heap_with (GSuspended (gen_yield (PStr ''second'') gen_end))
                     (StrongGeneratorWrapper (Some 0) True True)))))
        = fst (handle_send 1 PNone
          (heap_with (GSuspended (gen_yield (PStr ''second'') gen_end))
                     (StrongGeneratorWrapper (Some 0) True True)))"
  using strong_weak_strong [where
      h = "heap_with (GSuspended (gen_yield (PStr ''second'') gen_end))
                     (StrongGeneratorWrapper (Some 0) True True)"
      and s = 1 and g = 0 and c = True and d = True
      and st = "GSuspended (gen_yield (PStr ''second'') gen_end)" and v = PNone
      and e = GeneratorExit]
  by auto

text \<open>
  C9, as stated: every conversion (\<open>with_strong_ref\<close>, \<open>with_weak_ref\<close>, calling the
  wrapper) produces a new wrapper. \<open>StrongGeneratorWrapper.with_strong_ref\<close> (hence
  calling a strong wrapper) and \<open>WeakGeneratorWrapper.with_weak_ref\<close> are \<open>return self\<close>:
  the result is the receiver and nothing is allocated.
\<close>

theorem same_mode_conversion_counterexample:
  "with_strong_ref 1 (heap_with GFinished (StrongGeneratorWrapper (Some 0) True False))
     = (Inr 1, heap_with GFinished (StrongGeneratorWrapper (Some 0) True False))
   \<and> call_handle 1 (heap_with GFinished (StrongGeneratorWrapper (Some 0) True False))
     = (Inr 1, heap_with GFinished (StrongGeneratorWrapper (Some 0) True False))
   \<and> with_weak_ref 1 (heap_with GFinished (WeakGeneratorWrapper (WeakRef 0) True False))
     = (Inr 1, heap_with GFinished (WeakGeneratorWrapper (WeakRef 0) True False))"
  by (simp add: with_strong_ref_def with_weak_ref_def call_handle_def)

text \<open>
  C9, amended. A wrapper's class is fixed when it is constructed: no conversion and no
  \<open>send\<close>, \<open>throw\<close> or \<open>close\<close> changes any existing wrapper. A conversion to the class
  the receiver already has returns the receiver itself. \<open>with_strong_ref\<close> on a weak
  wrapper constructs a new strong wrapper; \<open>with_weak_ref\<close> on a strong wrapper that
  holds a generator constructs a new weak wrapper, and on a strong wrapper that holds
  \<open>None\<close> (the result of \<open>with_strong_ref\<close> on a weak wrapper whose generator is gone)
  it raises \<open>TypeError\<close> and constructs nothing. Calling the wrapper is
  \<open>with_strong_ref\<close>.
\<close>

theorem conversions_never_mutate:
  assumes "handles h self = Some obj" and "handles h (next_id h) = None"
  shows "(handles h i \<noteq> None \<longrightarrow>
            handles (snd (with_strong_ref self h)) i = handles h i
          \<and> handles (snd (with_weak_ref self h)) i = handles h i
          \<and> handles (snd (call_handle self h)) i = handles h i)
       \<and> handles (snd (handle_send self v h)) = handles h
       \<and> handles (snd (handle_throw self e h)) = handles h
       \<and> handles (snd (handle_close self h)) = handles h
       \<and> call_handle self h = with_strong_ref self h
       \<and> (obj = WeakGeneratorWrapper w c d \<longrightarrow>
            with_weak_ref self h = (Inr self, h)
          \<and> fst (with_strong_ref self h) = Inr (next_id h) \<and> next_id h \<noteq> self
          \<and> handles (snd (with_strong_ref self h)) (next_id h)
              = Some (StrongGeneratorWrapper (deref h w) c d))
       \<and> (obj = StrongGeneratorWrapper (Some g) c d \<longrightarrow>
            with_strong_ref self h = (Inr self, h)
          \<and> fst (with_weak_ref self h) = Inr (next_id h) \<and> next_id h \<noteq> self
          \<and> handles (snd (with_weak_ref self h)) (next_id h)
              = Some (WeakGeneratorWrapper (WeakRef g) c d))
       \<and> (obj = StrongGeneratorWrapper None c d \<longrightarrow>
            with_strong_ref self h = (Inr self, h)
          \<and> with_weak_ref self h
              = (Inl (TypeError ''cannot create weak reference to NoneType object''), h))"
proof -
  have ne: "next_id h \<noteq> self" using assms by auto
  have a: "handles h i \<noteq> None \<longrightarrow>
            handles (snd (with_strong_ref self h)) i = handles h i
          \<and> handles (snd (with_weak_ref self h)) i = handles h i
          \<and> handles (snd (call_handle self h)) i = handles h i"
    using assms
    by (auto simp add: with_strong_ref_def with_weak_ref_def call_handle_def
        new_StrongGeneratorWrapper_def new_WeakGeneratorWrapper_def weakref_ref_def
        alloc_handle_def Let_def split: handle.splits sum.splits option.splits)
  have b: "handles (snd (handle_send self v h)) = handles h"
    using assms(1)
    by (simp add: handle_send_def send_def call_send_def priv_send_handles)
  have c: "handles (snd (handle_throw self e h)) = handles h"
    using assms(1)
    by (simp add: handle_throw_def throw_def call_throw_def priv_throw_handles)
  have d: "handles (snd (handle_close self h)) = handles h"
    using assms(1)
    by (simp add: handle_close_def close_def call_close_def gen_close_handles
        split: option.splits)
  have e: "call_handle self h = with_strong_ref self h"
    by (simp add: call_handle_def)
  have f: "obj = WeakGeneratorWrapper w c d \<longrightarrow>
            with_weak_ref self h = (Inr self, h)
          \<and> fst (with_strong_ref self h) = Inr (next_id h) \<and> next_id h \<noteq> self
          \<and> handles (snd (with_strong_ref self h)) (next_id h)
              = Some (StrongGeneratorWrapper (deref h w) c d)"
    using assms(1) ne
    by (simp add: with_strong_ref_def with_weak_ref_def generator_def
        new_StrongGeneratorWrapper_def alloc_handle_def Let_def)
  have g: "obj = StrongGeneratorWrapper (Some g) c d \<longrightarrow>
            with_strong_ref self h = (Inr self, h)
          \<and> fst (with_weak_ref self h) = Inr (next_id h) \<and> next_id h \<noteq> self
          \<and> handles (snd (with_weak_ref self h)) (next_id h)
              = Some (WeakGeneratorWrapper (WeakRef g) c d)"
    using assms(1) ne
    by (simp add: with_strong_ref_def with_weak_ref_def generator_def
        new_WeakGeneratorWrapper_def weakref_ref_def alloc_handle_def Let_def)
  have n: "obj = StrongGeneratorWrapper None c d \<longrightarrow>
            with_strong_ref self h = (Inr self, h)
          \<and> with_weak_ref self h
              = (Inl (TypeError ''cannot create weak reference to NoneType object''), h)"
    using assms(1)
    by (simp add: with_strong_ref_def with_weak_ref_def generator_def
        new_WeakGeneratorWrapper_def weakref_ref_def)
  show ?thesis using a b c d e f g n by blast
qed

theorem conversions_never_mutate_witness:
  "fst (with_strong_ref 1 (heap_with GFinished (WeakGeneratorWrapper (WeakRef 0) True False)))
     = Inr 2
   \<and> handles (snd (with_strong_ref 1
         (heap_with GFinished (WeakGeneratorWrapper (WeakRef 0) True False)))) 2
     = Some (StrongGeneratorWrapper (Some 0) True False)
   \<and> handles (snd (with_strong_ref 1
         (heap_with GFinished (WeakGeneratorWrapper (WeakRef 0) True False)))) 1
     = Some (WeakGeneratorWrapper (WeakRef 0) True False)
   \<and> fst (with_weak_ref 1 (heap_with GFinished (StrongGeneratorWrapper (Some 0) False True)))
     = Inr 2
   \<and> handles (snd (with_weak_ref 1
         (heap_with GFinished (StrongGeneratorWrapper (Some 0) False True)))) 2
     = Some (WeakGeneratorWrapper (WeakRef 0) False True)
   \<and> handles (snd (with_weak_ref 1
         (heap_with GFinished (StrongGeneratorWrapper (Some 0) False True)))) 1
     = Some (StrongGeneratorWrapper (Some 0) False True)
   \<and> with_weak_ref 1 (heap_with GFinished (StrongGeneratorWrapper None True False))
     = (Inl (TypeError ''cannot create weak reference to NoneType object''),
        heap_with GFinished (StrongGeneratorWrapper None True False))"
  using conversions_never_mutate [where
      h = "heap_with GFinished (WeakGeneratorWrapper (WeakRef 0) True False)" and self = 1
      and obj = "WeakGeneratorWrapper (WeakRef 0) True False" and i = 1
      and w = "WeakRef 0" and c = True and d = False and g = 0 and v = PNone and e = GeneratorExit]
    conversions_never_mutate [where
      h = "heap_with GFinished (StrongGeneratorWrapper (Some 0) False True)" and self = 1
      and obj = "StrongGeneratorWrapper (Some 0) False True" and i = 1
      and w = "WeakRef 0" and c = False and d = True and g = 0 and v = PNone and e = GeneratorExit]
    conversions_never_mutate [where
      h = "heap_with GFinished (StrongGeneratorWrapper None True False)" and self = 1
      and obj = "StrongGeneratorWrapper None True False" and i = 1
      and w = "WeakRef 0" and c = True and d = False and g = 0 and v = PNone and e = GeneratorExit]
  by (simp add: heap_with_def deref_def)

section \<open>The callables returned by the properties\<close>

text \<open>
  C10. Reading \<open>send\<close> or \<open>throw\<close> on a weak wrapper of a live coroutine resolves the
  weak reference at that moment and binds the generator object in the callable. A later
  invocation resumes that generator whatever the wrapper's weak reference is by then,
  and a program that holds the callable holds a strong reference to the generator: the
  runtime does not deallocate it.
\<close>

theorem partial_binds_generator:
  assumes "handles h self = Some (WeakGeneratorWrapper (WeakRef g) c d)"
    and "gens h g = Some st"
  shows "send self h = Inr (PartialSend self (Some g))
       \<and> throw self h = Inr (PartialThrow self (Some g))
       \<and> (handles h' self = Some (WeakGeneratorWrapper w' c d)
            \<and> gens h' g = Some (GSuspended k) \<longrightarrow>
            gens (snd (call_send (PartialSend self (Some g)) v h'))
              = (gens h')(g \<mapsto> (case resume k (Send v) of
                                   Yielded y k' \<Rightarrow> GSuspended k'
                                 | Returned \<Rightarrow> GFinished
                                 | Raised x \<Rightarrow> GFinished))
          \<and> gens (snd (call_throw (PartialThrow self (Some g)) e h'))
              = (gens h')(g \<mapsto> (case resume k (Throw e) of
                                   Yielded y k' \<Rightarrow> GSuspended k'
                                 | Returned \<Rightarrow> GFinished
                                 | Raised x \<Rightarrow> GFinished)))
       \<and> g \<in> set (strong_gens h' (RefSend (PartialSend self (Some g))))
       \<and> g \<in> set (strong_gens h' (RefThrow (PartialThrow self (Some g))))
       \<and> (RefSend (PartialSend self (Some g)) \<in> set roots
            \<or> RefThrow (PartialThrow self (Some g)) \<in> set roots
          \<longrightarrow> gc_step roots g h' = h')"
proof -
  have a: "send self h = Inr (PartialSend self (Some g))"
    using assms by (simp add: send_def generator_def deref_def)
  have b: "throw self h = Inr (PartialThrow self (Some g))"
    using assms by (simp add: throw_def generator_def deref_def)
  have c: "handles h' self = Some (WeakGeneratorWrapper w' c d)
            \<and> gens h' g = Some (GSuspended k) \<longrightarrow>
            gens (snd (call_send (PartialSend self (Some g)) v h'))
              = (gens h')(g \<mapsto> (case resume k (Send v) of
                                   Yielded y k' \<Rightarrow> GSuspended k'
                                 | Returned \<Rightarrow> GFinished
                                 | Raised x \<Rightarrow> GFinished))
          \<and> gens (snd (call_throw (PartialThrow self (Some g)) e h'))
              = (gens h')(g \<mapsto> (case resume k (Throw e) of
                                   Yielded y k' \<Rightarrow> GSuspended k'
                                 | Returned \<Rightarrow> GFinished
                                 | Raised x \<Rightarrow> GFinished))"
    by (simp add: call_send_def call_throw_def priv_send_def priv_throw_def py_send_def
        py_throw_def gen_send_def gen_throw_def run_frame_def set_gen_def Let_def
        split: outcome.splits)
  have d: "g \<in> set (strong_gens h' (RefSend (PartialSend self (Some g))))"
    by simp
  have e: "g \<in> set (strong_gens h' (RefThrow (PartialThrow self (Some g))))"
    by simp
  have f: "RefSend (PartialSend self (Some g)) \<in> set roots
            \<or> RefThrow (PartialThrow self (Some g)) \<in> set roots
          \<longrightarrow> gc_step roots g h' = h'"
    using d e by (auto simp add: gc_step_def)
  show ?thesis using a b c d e f by blast
qed

theorem partial_binds_generator_witness:
  "send 1 (heap_with (GSuspended (gen_yield (PStr ''second'') gen_end))
                     (WeakGeneratorWrapper (WeakRef 0) True False))
     = Inr (PartialSend 1 (Some 0))
   \<and> gens (snd (call_send (PartialSend 1 (Some 0)) (PInt 7)
         (heap_with (GSuspended (gen_yield (PStr ''second'') gen_end))
                    (WeakGeneratorWrapper (WeakRef 5) True False)))) 0
     = Some (GSuspended gen_end)
   \<and> gc_step [RefSend (PartialSend 1 (Some 0))] 0
         (heap_with (GSuspended (gen_yield (PStr ''second'') gen_end))
                    (WeakGeneratorWrapper (WeakRef 5) True False))
     = heap_with (GSuspended (gen_yield (PStr ''second'') gen_end))
                    (WeakGeneratorWrapper (WeakRef 5) True False)"
  using partial_binds_generator [where
      h = "heap_with (GSuspended (gen_yield (PStr ''second'') gen_end))
                     (WeakGeneratorWrapper (WeakRef 0) True False)"
      and self = 1 and g = 0 and c = True and d = False
      and st = "GSuspended (gen_yield (PStr ''second'') gen_end)"
      and h' = "heap_with (GSuspended (gen_yield (PStr ''second'') gen_end))
                    (WeakGeneratorWrapper (WeakRef 5) True False)"
      and w' = "WeakRef 5" and k = "gen_yield (PStr ''second'') gen_end"
      and v = "PInt 7" and e = GeneratorExit
      and roots = "[RefSend (PartialSend 1 (Some 0))]"]
  by (simp add: gen_yield_def)

end
